theory Spec2Isabelle
  imports Main
begin

section \<open>The package build descriptor \<^verbatim>\<open>setup.py\<close>\<close>

text \<open>
  The repository's only source file is \<^verbatim>\<open>setup.py\<close>. It has two statements: an import
  of \<^verbatim>\<open>setup\<close> and \<^verbatim>\<open>find_packages\<close> from setuptools, and one call
  \<^verbatim>\<open>setup(name=..., version=..., ...)\<close> whose keyword arguments are string, boolean
  and list-of-string literals, except \<^verbatim>\<open>packages=find_packages()\<close>.
\<close>

subsection \<open>Values and keyword arguments\<close>

text \<open>The Python values that occur as keyword arguments of the call.\<close>

datatype pyval = Str string | Bool bool | StrList "string list"

text \<open>
  The keyword arguments of a call, in the order they are written. An association list
  keeps the order and would show a keyword written twice.
\<close>

type_synonym kwargs = "(string \<times> pyval) list"

text \<open>
  The keyword arguments of the \<^verbatim>\<open>setup(...)\<close> call, lines 4 to 27 of the file.
  \<^verbatim>\<open>find_packages\<close> is setuptools code that walks the working directory; its result
  is the parameter \<open>found\<close>.
\<close>

definition setup_kwargs :: "string list \<Rightarrow> kwargs" where
  "setup_kwargs found =
    [(''name'', Str ''space-agriculture-rl''),
     (''version'', Str ''0.1.0''),
     (''packages'', StrList found),
     (''include_package_data'', Bool True),
     (''install_requires'', StrList
        [''streamlit>=1.31.0'',
         ''pandas>=2.1.1'',
         ''numpy>=1.26.1'',
         ''matplotlib>=3.8.1'',
         ''tensorflow>=2.15.0'',
         ''kaggle>=1.5.16'',
         ''Pillow>=10.1.0'']),
     (''author'', Str ''Your Name''),
     (''author_email'', Str ''your.email@example.com''),
     (''description'', Str ''Space Agriculture Reinforcement Learning System''),
     (''keywords'', Str ''space, agriculture, reinforcement learning, AI''),
     (''url'', Str ''https://github.com/yourusername/space-agriculture-rl''),
     (''classifiers'', StrList
        [''Development Status :: 3 - Alpha'',
         ''Intended Audience :: Science/Research'',
         ''Programming Language :: Python :: 3'',
         ''Topic :: Scientific/Engineering :: Artificial Intelligence''])]"

text \<open>Reading a keyword argument: the string or the list of strings passed under a key.\<close>

definition kw_str :: "kwargs \<Rightarrow> string \<Rightarrow> string option" where
  "kw_str kws k = (case map_of kws k of Some (Str s) \<Rightarrow> Some s | _ \<Rightarrow> None)"

definition kw_list :: "kwargs \<Rightarrow> string \<Rightarrow> string list option" where
  "kw_list kws k = (case map_of kws k of Some (StrList xs) \<Rightarrow> Some xs | _ \<Rightarrow> None)"

subsection \<open>Evaluating the module\<close>

text \<open>
  The file defines nothing and handles no exception. Everything it calls is setuptools
  code: the import on line 1, \<^verbatim>\<open>find_packages()\<close> on line 6 and \<^verbatim>\<open>setup(...)\<close>
  on lines 3 to 28. An exception raised in one of them ends the evaluation.
\<close>

datatype error =
    ModuleNotFoundError string
  | SystemExit string
  | SetupError string

text \<open>
  What setuptools does in one evaluation of the file, taken as a parameter: whether the
  import raises, what \<^verbatim>\<open>find_packages()\<close> returns or raises, and whether
  \<^verbatim>\<open>setup\<close> raises on the keyword arguments it is given (\<open>None\<close>: it returns).
\<close>

record setuptools_env =
  import_setuptools :: "error option"
  find_packages :: "error + string list"
  setup_call :: "kwargs \<Rightarrow> error option"

text \<open>
  The whole module, in Python's order of evaluation: the import; then the keyword
  arguments, of which only \<^verbatim>\<open>find_packages()\<close> is a call; then the call of
  \<^verbatim>\<open>setup\<close>. The result is the first exception raised, or the metadata that
  \<^verbatim>\<open>setup\<close> received and accepted.
\<close>

definition run_module :: "setuptools_env \<Rightarrow> error + kwargs" where
  "run_module env =
     (case import_setuptools env of
        Some e \<Rightarrow> Inl e
      | None \<Rightarrow>
          (case find_packages env of
             Inl e \<Rightarrow> Inl e
           | Inr found \<Rightarrow>
               (case setup_call env (setup_kwargs found) of
                  Some e \<Rightarrow> Inl e
                | None \<Rightarrow> Inr (setup_kwargs found))))"

text \<open>
  Two evaluations in a working directory where \<^verbatim>\<open>find_packages()\<close> finds no
  package. In the first the file is run with no command, \<^verbatim>\<open>python3 setup.py\<close>, and
  \<^verbatim>\<open>setup\<close> exits with \<^verbatim>\<open>error: no commands supplied\<close>. In the second it is
  run with a command that \<^verbatim>\<open>setup\<close> carries out.
\<close>

definition no_command_run :: setuptools_env where
  "no_command_run =
     \<lparr>import_setuptools = None,
      find_packages = Inr [],
      setup_call = (\<lambda>kws. Some (SystemExit ''error: no commands supplied''))\<rparr>"

definition command_run :: setuptools_env where
  "command_run =
     \<lparr>import_setuptools = None,
      find_packages = Inr [],
      setup_call = (\<lambda>kws. None)\<rparr>"

subsection \<open>Reading the declared strings\<close>

text \<open>
  The claims speak of the contents of the declared strings: version components,
  requirement operators, classifier categories, URL segments. The functions below read
  them; they are the vocabulary of the statements, not code of the repository.
\<close>

text \<open>Python's \<^verbatim>\<open>s.startswith(p)\<close>.\<close>

fun starts_with :: "string \<Rightarrow> string \<Rightarrow> bool" where
  "starts_with s [] = True"
| "starts_with [] (p # ps) = False"
| "starts_with (c # cs) (p # ps) = (c = p \<and> starts_with cs ps)"

text \<open>The number of positions of \<open>s\<close> at which \<open>sub\<close> occurs.\<close>

fun count_sub :: "string \<Rightarrow> string \<Rightarrow> nat" where
  "count_sub sub [] = (if sub = [] then 1 else 0)"
| "count_sub sub (c # cs) = (if starts_with (c # cs) sub then 1 else 0) + count_sub sub cs"

text \<open>Python's \<^verbatim>\<open>s.split(sep)\<close> for a one-character separator.\<close>

fun split_on :: "char \<Rightarrow> string \<Rightarrow> string list" where
  "split_on sep [] = [[]]"
| "split_on sep (c # cs) =
     (if c = sep then [] # split_on sep cs
      else (case split_on sep cs of [] \<Rightarrow> [[c]] | w # ws \<Rightarrow> (c # w) # ws))"

text \<open>
  A numeric identifier of a semantic version: a non-empty run of decimal digits with no
  leading zero, read as a natural number.
\<close>

definition is_digit :: "char \<Rightarrow> bool" where
  "is_digit c = (c \<in> set ''0123456789'')"

fun decimal :: "nat \<Rightarrow> string \<Rightarrow> nat" where
  "decimal n [] = n"
| "decimal n (c # cs) = decimal (10 * n + (of_char c - 48)) cs"

definition numeric_identifier :: "string \<Rightarrow> nat option" where
  "numeric_identifier s =
     (if s = [] then None
      else if filter (\<lambda>c. \<not> is_digit c) s \<noteq> [] then None
      else if starts_with s ''0'' \<and> length s > 1 then None
      else Some (decimal 0 s))"

text \<open>A semantic version core: exactly three numeric identifiers separated by dots.\<close>

definition parse_semver :: "string \<Rightarrow> (nat \<times> nat \<times> nat) option" where
  "parse_semver s =
     (case map numeric_identifier (split_on CHR ''.'' s) of
        [Some major, Some minor, Some patch] \<Rightarrow> Some (major, minor, patch)
      | _ \<Rightarrow> None)"

text \<open>
  A requirement string is a project name followed by a version specifier. The comparison
  operators of a version specifier are built from the characters below; a comma joins
  several specifiers.
\<close>

definition is_op_char :: "char \<Rightarrow> bool" where
  "is_op_char c = (c \<in> set ''<>=!~,'')"

definition req_name :: "string \<Rightarrow> string" where
  "req_name r = takeWhile (\<lambda>c. \<not> is_op_char c) r"

definition req_operator :: "string \<Rightarrow> string" where
  "req_operator r = takeWhile is_op_char (dropWhile (\<lambda>c. \<not> is_op_char c) r)"

definition req_version :: "string \<Rightarrow> string" where
  "req_version r = dropWhile is_op_char (dropWhile (\<lambda>c. \<not> is_op_char c) r)"

text \<open>The maximal runs of operator characters of a string, in order.\<close>

fun op_runs :: "string \<Rightarrow> string \<Rightarrow> string list" where
  "op_runs cur [] = (if cur = [] then [] else [cur])"
| "op_runs cur (c # cs) =
     (if is_op_char c then op_runs (cur @ [c]) cs
      else if cur = [] then op_runs [] cs
      else cur # op_runs [] cs)"

text \<open>The top-level category of a classifier: the text before the first \<^verbatim>\<open> :: \<close>.\<close>

fun top_category :: "string \<Rightarrow> string" where
  "top_category [] = []"
| "top_category (c # cs) =
     (if starts_with (c # cs) '' :: '' then [] else c # top_category cs)"

section \<open>What the keyword arguments hold\<close>

lemma kw_name: "kw_str (setup_kwargs found) ''name'' = Some ''space-agriculture-rl''"
  by (simp add: kw_str_def setup_kwargs_def)

lemma kw_version: "kw_str (setup_kwargs found) ''version'' = Some ''0.1.0''"
  by (simp add: kw_str_def setup_kwargs_def)

lemma kw_author: "kw_str (setup_kwargs found) ''author'' = Some ''Your Name''"
  by (simp add: kw_str_def setup_kwargs_def)

lemma kw_author_email:
  "kw_str (setup_kwargs found) ''author_email'' = Some ''your.email@example.com''"
  by (simp add: kw_str_def setup_kwargs_def)

lemma kw_url:
  "kw_str (setup_kwargs found) ''url'' =
     Some ''https://github.com/yourusername/space-agriculture-rl''"
  by (simp add: kw_str_def setup_kwargs_def)

lemma kw_packages: "kw_list (setup_kwargs found) ''packages'' = Some found"
  by (simp add: kw_list_def setup_kwargs_def)

lemma kw_install_requires:
  "kw_list (setup_kwargs found) ''install_requires'' =
     Some [''streamlit>=1.31.0'', ''pandas>=2.1.1'', ''numpy>=1.26.1'',
           ''matplotlib>=3.8.1'', ''tensorflow>=2.15.0'', ''kaggle>=1.5.16'',
           ''Pillow>=10.1.0'']"
  by (simp add: kw_list_def setup_kwargs_def)

lemma kw_classifiers:
  "kw_list (setup_kwargs found) ''classifiers'' =
     Some [''Development Status :: 3 - Alpha'',
           ''Intended Audience :: Science/Research'',
           ''Programming Language :: Python :: 3'',
           ''Topic :: Scientific/Engineering :: Artificial Intelligence'']"
  by (simp add: kw_list_def setup_kwargs_def)

text \<open>The readers of strings do reject: the statements made with them are not empty.\<close>

lemma parse_semver_rejects:
  "map parse_semver [''0.1'', ''01.1.0'', ''1.2.3.4'', ''1.a.0'', ''1..0'', []]
     = [None, None, None, None, None, None]"
  by (simp add: parse_semver_def numeric_identifier_def is_digit_def)

lemma parse_semver_accepts: "parse_semver ''10.20.30'' = Some (10, 20, 30)"
  by (simp add: parse_semver_def numeric_identifier_def is_digit_def)

lemma op_runs_sees_other_operators:
  "map (op_runs []) [''a>=1,<2'', ''b==1.0'', ''c~=2.2'', ''d'']
     = [[''>='', '',<''], [''==''], [''~=''], []]"
  by (simp add: is_op_char_def)

section \<open>The claims\<close>

text \<open>
  C2: the descriptor declares the project name \<^verbatim>\<open>space-agriculture-rl\<close> and the version
  string \<^verbatim>\<open>0.1.0\<close>, and it passes the author and contact fields \<^verbatim>\<open>author\<close>,
  \<^verbatim>\<open>author_email\<close> and \<^verbatim>\<open>url\<close>, each as a non-empty string, whatever
  \<^verbatim>\<open>find_packages\<close> returned.
\<close>

theorem C2_name_version_author_declared:
  "kw_str (setup_kwargs found) ''name'' = Some ''space-agriculture-rl''
   \<and> kw_str (setup_kwargs found) ''version'' = Some ''0.1.0''
   \<and> (\<exists>a e u. kw_str (setup_kwargs found) ''author'' = Some a \<and> a \<noteq> []
        \<and> kw_str (setup_kwargs found) ''author_email'' = Some e \<and> e \<noteq> []
        \<and> kw_str (setup_kwargs found) ''url'' = Some u \<and> u \<noteq> [])"
  by (simp add: kw_name kw_version kw_author kw_author_email kw_url)

text \<open>
  C3: the descriptor declares exactly seven runtime dependencies, named streamlit,
  pandas, numpy, matplotlib, tensorflow, kaggle and Pillow, in this order, and every
  entry carries a minimum-version constraint: its operator is \<^verbatim>\<open>>=\<close> and the version
  after it is a well-formed three-component version.
\<close>

theorem C3_seven_dependencies_with_minimum_versions:
  "\<exists>deps. kw_list (setup_kwargs found) ''install_requires'' = Some deps
     \<and> length deps = 7
     \<and> map req_name deps =
         [''streamlit'', ''pandas'', ''numpy'', ''matplotlib'', ''tensorflow'', ''kaggle'',
          ''Pillow'']
     \<and> map req_operator deps = replicate 7 ''>=''
     \<and> map (\<lambda>r. parse_semver (req_version r)) deps =
         [Some (1, 31, 0), Some (2, 1, 1), Some (1, 26, 1), Some (3, 8, 1), Some (2, 15, 0),
          Some (1, 5, 16), Some (10, 1, 0)]"
  unfolding kw_install_requires
  by (simp add: req_name_def req_operator_def req_version_def is_op_char_def
      parse_semver_def numeric_identifier_def is_digit_def numeral_eq_Suc)

text \<open>
  C4: the declared version string \<^verbatim>\<open>0.1.0\<close> parses as a semantic version: three
  non-negative integer components separated by dots, here 0, 1 and 0.
\<close>

theorem C4_version_is_semver:
  "\<exists>v. kw_str (setup_kwargs found) ''version'' = Some v \<and> parse_semver v = Some (0, 1, 0)"
  unfolding kw_version
  by (simp add: parse_semver_def numeric_identifier_def is_digit_def)

text \<open>C5: the declared dependency list \<^verbatim>\<open>install_requires\<close> is a list and is not empty.\<close>

theorem C5_install_requires_nonempty:
  "\<exists>deps. kw_list (setup_kwargs found) ''install_requires'' = Some deps \<and> deps \<noteq> []"
  by (simp add: kw_install_requires)

text \<open>
  C6: the declared classifiers are exactly four entries whose top-level categories are
  Development Status, Intended Audience, Programming Language and Topic.
\<close>

theorem C6_classifier_categories:
  "\<exists>cls. kw_list (setup_kwargs found) ''classifiers'' = Some cls
     \<and> map top_category cls =
         [''Development Status'', ''Intended Audience'', ''Programming Language'', ''Topic'']"
  unfolding kw_classifiers
  by simp

text \<open>
  C7, as stated: every evaluation of the descriptor returns the metadata and never an
  error. The evaluation with no command, \<^verbatim>\<open>python3 setup.py\<close>, ends in the
  \<^verbatim>\<open>SystemExit\<close> that \<^verbatim>\<open>setup\<close> raises: the file has no handler for it.
\<close>

theorem C7_no_command_evaluation_fails:
  "run_module no_command_run = Inl (SystemExit ''error: no commands supplied'')"
  by (simp add: run_module_def no_command_run_def)

text \<open>
  C7, amended: the descriptor adds no error of its own and hides none. An evaluation
  returns the metadata exactly when the import, \<^verbatim>\<open>find_packages()\<close> and
  \<^verbatim>\<open>setup\<close> all return, and the metadata is then the declared keyword arguments;
  it fails with an error exactly when that error is the first one raised by the import,
  by \<^verbatim>\<open>find_packages()\<close> or by \<^verbatim>\<open>setup\<close>.
\<close>

theorem C7_errors_are_those_of_setuptools:
  "((run_module env = Inr m) =
      (import_setuptools env = None
       \<and> (\<exists>found. find_packages env = Inr found
             \<and> setup_call env (setup_kwargs found) = None \<and> m = setup_kwargs found)))
   \<and> ((run_module env = Inl e) =
      (import_setuptools env = Some e
       \<or> (import_setuptools env = None \<and> find_packages env = Inl e)
       \<or> (import_setuptools env = None
           \<and> (\<exists>found. find_packages env = Inr found
                 \<and> setup_call env (setup_kwargs found) = Some e))))"
  by (auto simp add: run_module_def split: option.splits sum.splits)

text \<open>
  The amended C7 at the two evaluations above: with a command the metadata comes back,
  with none the error is the one \<^verbatim>\<open>setup\<close> raised.
\<close>

theorem C7_errors_are_those_of_setuptools_witness:
  "run_module command_run = Inr (setup_kwargs [])
   \<and> (import_setuptools no_command_run = Some (SystemExit ''error: no commands supplied'')
      \<or> (import_setuptools no_command_run = None
          \<and> find_packages no_command_run = Inl (SystemExit ''error: no commands supplied''))
      \<or> (import_setuptools no_command_run = None
          \<and> (\<exists>found. find_packages no_command_run = Inr found
                \<and> setup_call no_command_run (setup_kwargs found)
                    = Some (SystemExit ''error: no commands supplied''))))"
proof -
  have ok: "import_setuptools command_run = None
      \<and> (\<exists>found. find_packages command_run = Inr found
            \<and> setup_call command_run (setup_kwargs found) = None
            \<and> setup_kwargs [] = setup_kwargs found)"
    by (simp add: command_run_def)
  have failed: "run_module no_command_run = Inl (SystemExit ''error: no commands supplied'')"
    by (simp add: run_module_def no_command_run_def)
  from ok have "run_module command_run = Inr (setup_kwargs [])"
    by (simp only: C7_errors_are_those_of_setuptools [THEN conjunct1])
  moreover from failed
  have "import_setuptools no_command_run = Some (SystemExit ''error: no commands supplied'')
      \<or> (import_setuptools no_command_run = None
          \<and> find_packages no_command_run = Inl (SystemExit ''error: no commands supplied''))
      \<or> (import_setuptools no_command_run = None
          \<and> (\<exists>found. find_packages no_command_run = Inr found
                \<and> setup_call no_command_run (setup_kwargs found)
                    = Some (SystemExit ''error: no commands supplied'')))"
    by (simp only: C7_errors_are_those_of_setuptools [THEN conjunct2])
  ultimately show ?thesis by (rule conjI)
qed

text \<open>
  C9: for every entry of the declared dependency list the version constraint is a lower
  bound only. The only operator in each requirement string is one \<^verbatim>\<open>>=\<close>: it occurs
  exactly once, and \<^verbatim>\<open><\<close> (so also \<^verbatim>\<open><=\<close>), \<^verbatim>\<open>==\<close> (so also \<^verbatim>\<open>===\<close>),
  \<^verbatim>\<open>~=\<close> and \<^verbatim>\<open>!=\<close> do not occur.
\<close>

theorem C9_lower_bounds_only:
  "\<exists>deps. kw_list (setup_kwargs found) ''install_requires'' = Some deps
     \<and> map (op_runs []) deps = replicate (length deps) [''>='']
     \<and> map (count_sub ''>='') deps = replicate (length deps) 1
     \<and> map (\<lambda>r. count_sub ''<'' r + count_sub ''=='' r + count_sub ''~='' r
                 + count_sub ''!='' r) deps = replicate (length deps) 0"
  unfolding kw_install_requires
  by (simp add: is_op_char_def numeral_eq_Suc)

text \<open>
  C10: the author and contact metadata are template placeholders: \<^verbatim>\<open>author\<close> is
  \<^verbatim>\<open>Your Name\<close>, \<^verbatim>\<open>author_email\<close> is \<^verbatim>\<open>your.email@example.com\<close>, and the path
  of \<^verbatim>\<open>url\<close> has the segment \<^verbatim>\<open>yourusername\<close>.
\<close>

theorem C10_placeholder_contact_metadata:
  "kw_str (setup_kwargs found) ''author'' = Some ''Your Name''
   \<and> kw_str (setup_kwargs found) ''author_email'' = Some ''your.email@example.com''
   \<and> (\<exists>u. kw_str (setup_kwargs found) ''url'' = Some u
        \<and> split_on CHR ''/'' u =
            [''https:'', [], ''github.com'', ''yourusername'', ''space-agriculture-rl'']
        \<and> count_sub ''yourusername'' u = 1)"
  unfolding kw_author kw_author_email kw_url
  by simp

end
